theory Spec2Isabelle
  imports Main "HOL-Library.Multiset" "HOL-Library.Sublist"
begin

section \<open>Python string primitives used by np.py\<close>

text \<open>
  Text is modelled as \<open>string\<close>, one \<open>char\<close> per code point below 256.
  Lines are the elements \<open>readlines()\<close> returns, each with its terminator.
\<close>

definition TAB :: char where
  "TAB = CHR 0x09"

definition NL :: char where
  "NL = CHR 0x0A"

definition BACKSLASH :: char where
  "BACKSLASH = CHR 0x5C"

text \<open>\<open>s.startswith(p)\<close>\<close>

fun startswith :: "string \<Rightarrow> string \<Rightarrow> bool" where
  "startswith s [] = True"
| "startswith [] (p # ps) = False"
| "startswith (c # cs) (p # ps) = (c = p \<and> startswith cs ps)"

text \<open>\<open>w in s\<close> on strings: \<open>w\<close> occurs as a contiguous substring of \<open>s\<close>.\<close>

fun contains :: "string \<Rightarrow> string \<Rightarrow> bool" where
  "contains w [] = (w = [])"
| "contains w (c # cs) = (startswith (c # cs) w \<or> contains w cs)"

text \<open>\<open>s.endswith(suf)\<close>, and \<open>s.endswith(tuple)\<close>: some element of the tuple is a suffix.\<close>

definition endswith :: "string \<Rightarrow> string \<Rightarrow> bool" where
  "endswith s suf = startswith (rev s) (rev suf)"

definition endswith_any :: "string \<Rightarrow> string list \<Rightarrow> bool" where
  "endswith_any s sufs = list_ex (endswith s) sufs"

text \<open>\<open>str.isspace\<close> on the code points below 256.\<close>

definition isspace :: "char \<Rightarrow> bool" where
  "isspace c = (c \<in> set [CHR 0x09, CHR 0x0A, CHR 0x0B, CHR 0x0C, CHR 0x0D,
                          CHR 0x1C, CHR 0x1D, CHR 0x1E, CHR 0x1F, CHR 0x20,
                          CHR 0x85, CHR 0xA0])"

definition strip :: "string \<Rightarrow> string" where
  "strip s = rev (dropWhile isspace (rev (dropWhile isspace s)))"

text \<open>\<open>str.lower\<close>: A-Z and the Latin-1 capitals move up by 32.\<close>

definition lower_char :: "char \<Rightarrow> char" where
  "lower_char c =
     (let n = (of_char c :: nat)
      in if (65 \<le> n \<and> n \<le> 90) \<or> (192 \<le> n \<and> n \<le> 222 \<and> n \<noteq> 215)
         then char_of (n + 32) else c)"

definition lower :: "string \<Rightarrow> string" where
  "lower s = map lower_char s"

text \<open>\<open>s.split(d)\<close> with a one-character separator: never an empty list.\<close>

fun split_on :: "char \<Rightarrow> string \<Rightarrow> string list" where
  "split_on d [] = [[]]"
| "split_on d (c # cs) =
     (if c = d then [] # split_on d cs
      else (case split_on d cs of
              [] \<Rightarrow> [[c]]
            | t # ts \<Rightarrow> (c # t) # ts))"

text \<open>\<open>s.replace(old, new)\<close> for a non-empty \<open>old\<close>: leftmost non-overlapping occurrences.\<close>

fun replace_str :: "string \<Rightarrow> string \<Rightarrow> nat \<Rightarrow> string \<Rightarrow> string" where
  "replace_str old new skip [] = []"
| "replace_str old new (Suc k) (c # cs) = replace_str old new k cs"
| "replace_str old new 0 (c # cs) =
     (if old \<noteq> [] \<and> startswith (c # cs) old
      then new @ replace_str old new (length old - 1) cs
      else c # replace_str old new 0 cs)"

definition replace :: "string \<Rightarrow> string \<Rightarrow> string \<Rightarrow> string" where
  "replace s old new = replace_str old new 0 s"

text \<open>
  The loop of \<open>s.expandtabs(tabsize)\<close>: a tab becomes spaces up to the next multiple of
  \<open>tabsize\<close> columns, and is dropped when \<open>tabsize \<le> 0\<close>; the column restarts after a
  line break.
\<close>

fun expandtabs_from :: "int \<Rightarrow> nat \<Rightarrow> string \<Rightarrow> string" where
  "expandtabs_from tabsize j [] = []"
| "expandtabs_from tabsize j (c # cs) =
     (if c = TAB then
        (if 0 < tabsize
         then (let incr = nat tabsize - (j mod nat tabsize)
               in replicate incr CHR '' '' @ expandtabs_from tabsize (j + incr) cs)
         else expandtabs_from tabsize j cs)
      else c # expandtabs_from tabsize
                 (if c = CHR 0x0A \<or> c = CHR 0x0D then 0 else Suc j) cs)"

section \<open>Errors\<close>

text \<open>
  The exceptions the script can let escape. \<open>ValueError\<close> carries its message,
  \<open>UnboundLocalError\<close> the name of the unassigned local, the file errors the path.
\<close>

datatype error =
    ValueError string
  | TypeError
  | OverflowError
  | UnboundLocalError string
  | FileExistsError string
  | FileNotFoundError string
  | NotADirectoryError string
  | IsADirectoryError string

text \<open>
  \<open>s.expandtabs(tabsize)\<close>: the argument is converted to a C \<open>int\<close>, which raises
  \<open>OverflowError\<close> outside its range.
\<close>

definition expandtabs :: "string \<Rightarrow> int \<Rightarrow> error + string" where
  "expandtabs s tabsize =
     (if tabsize < - (2 ^ 31) \<or> 2 ^ 31 \<le> tabsize then Inl OverflowError
      else Inr (expandtabs_from tabsize 0 s))"

text \<open>
  \<open>repr\<close> of a string, which the messages of \<open>ValueError\<close> quote: single quotes unless
  the text holds one and no double quote; the quote and the backslash escaped; tab,
  line feed and carriage return as \<open>\t\<close>, \<open>\n\<close>, \<open>\r\<close>; the other characters that are not
  printable as \<open>\xNN\<close>.
\<close>

definition hex_digit :: "nat \<Rightarrow> char" where
  "hex_digit n = ''0123456789abcdef'' ! (n mod 16)"

definition repr_char :: "char \<Rightarrow> char \<Rightarrow> string" where
  "repr_char quote c =
     (let n = (of_char c :: nat)
      in if c = quote \<or> c = BACKSLASH then [BACKSLASH, c]
         else if c = TAB then [BACKSLASH, CHR ''t'']
         else if c = NL then [BACKSLASH, CHR ''n'']
         else if c = CHR 0x0D then [BACKSLASH, CHR ''r'']
         else if n < 32 \<or> n = 127 \<or> (128 \<le> n \<and> n \<le> 160) \<or> n = 173
              then [BACKSLASH, CHR ''x'', hex_digit (n div 16), hex_digit n]
         else [c])"

definition repr :: "string \<Rightarrow> string" where
  "repr s =
     (let quote = (if CHR 0x27 \<in> set s \<and> CHR 0x22 \<notin> set s then CHR 0x22 else CHR 0x27)
      in [quote] @ concat (map (repr_char quote) s) @ [quote])"

text \<open>\<open>str(n)\<close> for a natural number.\<close>

function str_nat :: "nat \<Rightarrow> string" where
  "str_nat n =
     (if n < 10 then [char_of (48 + n)]
      else str_nat (n div 10) @ [char_of (48 + n mod 10)])"
  by pat_completeness auto
termination
  by (relation "measure id") auto

declare str_nat.simps [simp del]

section \<open>NPSettings\<close>

record NPSettings =
  use_tabs :: bool
  expanded_spaces :: int

definition NPSettings_init :: NPSettings where
  "NPSettings_init = \<lparr>use_tabs = False, expanded_spaces = 2\<rparr>"

text \<open>\<open>distutils.util.strtobool\<close>, which \<open>bool_check\<close> forwards to.\<close>

definition strtobool :: "string \<Rightarrow> error + bool" where
  "strtobool val =
     (let v = lower val
      in if v \<in> set [''y'', ''yes'', ''t'', ''true'', ''on'', ''1''] then Inr True
         else if v \<in> set [''n'', ''no'', ''f'', ''false'', ''off'', ''0''] then Inr False
         else Inl (ValueError (''invalid truth value '' @ repr v)))"

definition bool_check :: "string \<Rightarrow> error + bool" where
  "bool_check v = strtobool v"

text \<open>
  \<open>int(value)\<close> on a string, as CPython 3.11 does it. White space around the literal is
  skipped, and an optional sign read. The run of digits and underscores is scanned
  first: a leading, doubled or trailing underscore is an invalid literal. A run of
  more than 4300 digits then exceeds the conversion limit, whatever follows it. Last,
  an empty run or anything but white space after it is an invalid literal. That
  message quotes the first 200 characters of the \<open>repr\<close> of the argument.
\<close>

definition isdigit :: "char \<Rightarrow> bool" where
  "isdigit c = (48 \<le> (of_char c :: nat) \<and> (of_char c :: nat) \<le> 57)"

text \<open>The white space C's \<open>isspace\<close> knows, and the translation of the other two spaces.\<close>

definition c_isspace :: "char \<Rightarrow> bool" where
  "c_isspace c = (c \<in> set [CHR 0x09, CHR 0x0A, CHR 0x0B, CHR 0x0C, CHR 0x0D, CHR 0x20])"

definition to_ascii :: "string \<Rightarrow> string" where
  "to_ascii s = map (\<lambda>c. if c = CHR 0x85 \<or> c = CHR 0xA0 then CHR 0x20 else c) s"

text \<open>
  The scan of the run: the previous character, the digits counted, the value so far.
  \<open>None\<close> is a misplaced underscore; otherwise the count, the value and what follows.
\<close>

fun scan_run :: "char \<Rightarrow> nat \<Rightarrow> int \<Rightarrow> string \<Rightarrow> (nat \<times> int \<times> string) option" where
  "scan_run prev digits acc [] =
     (if prev = CHR ''_'' then None else Some (digits, acc, []))"
| "scan_run prev digits acc (c # cs) =
     (if c = CHR ''_'' then
        (if prev = CHR ''_'' then None else scan_run c digits acc cs)
      else if isdigit c then scan_run c (Suc digits) (10 * acc + (of_char c - 48)) cs
      else if prev = CHR ''_'' then None
      else Some (digits, acc, c # cs))"

definition invalid_literal :: "string \<Rightarrow> error" where
  "invalid_literal s =
     ValueError (''invalid literal for int() with base 10: '' @ take 200 (repr s))"

definition exceeds_limit :: "nat \<Rightarrow> error" where
  "exceeds_limit digits =
     ValueError (''Exceeds the limit (4300 digits) for integer string conversion: value has ''
                 @ str_nat digits
                 @ '' digits; use sys.set_int_max_str_digits() to increase the limit'')"

definition py_int :: "string \<Rightarrow> error + int" where
  "py_int s =
     (let t = dropWhile c_isspace (to_ascii s);
          negative = startswith t ''-'';
          u = (if startswith t ''+'' \<or> startswith t ''-'' then tl t else t)
      in if startswith u ''_'' then Inl (invalid_literal s)
         else
           (case scan_run (CHR 0x00) 0 0 u of
              None \<Rightarrow> Inl (invalid_literal s)
            | Some (digits, v, rest) \<Rightarrow>
                if 4300 < digits then Inl (exceeds_limit digits)
                else if digits = 0 \<or> dropWhile c_isspace rest \<noteq> [] then Inl (invalid_literal s)
                else Inr (if negative then - v else v)))"

text \<open>What \<open>read\<close> prints: the 1-based line number and the raw line.\<close>

datatype message =
    InvalidSyntax nat string
  | InvalidSetting nat string

text \<open>
  One iteration of the loop of \<open>NPSettings.read\<close>. The settings object is mutated in
  place, so the state after an exception is part of the result.
\<close>

definition read_line ::
  "nat \<Rightarrow> string \<Rightarrow> NPSettings \<times> message list \<Rightarrow> error option \<times> NPSettings \<times> message list" where
  "read_line index line st =
     (case st of (self, out) \<Rightarrow>
        if strip line \<noteq> [] \<and> \<not> startswith (strip line) ''#'' then
          (let tokens = split_on CHR '':'' line
           in if length tokens \<noteq> 2 then (None, self, out @ [InvalidSyntax (index + 1) line])
              else
                (let key = lower (strip (tokens ! 0));
                     val = lower (strip (tokens ! 1))
                 in if key = ''use_tabs'' then
                      (case bool_check val of
                         Inl e \<Rightarrow> (Some e, self, out)
                       | Inr b \<Rightarrow> (None, self\<lparr>use_tabs := b\<rparr>, out))
                    else if key = ''expanded_spaces'' then
                      (case py_int val of
                         Inl e \<Rightarrow> (Some e, self, out)
                       | Inr n \<Rightarrow> (None, self\<lparr>expanded_spaces := n\<rparr>, out))
                    else (None, self, out @ [InvalidSetting (index + 1) line])))
        else (None, self, out))"

fun read_lines ::
  "nat \<Rightarrow> string list \<Rightarrow> NPSettings \<times> message list \<Rightarrow> error option \<times> NPSettings \<times> message list" where
  "read_lines index [] st = (None, st)"
| "read_lines index (line # rest) st =
     (case read_line index line st of
        (Some e, st') \<Rightarrow> (Some e, st')
      | (None, st') \<Rightarrow> read_lines (Suc index) rest st')"

text \<open>
  \<open>NPSettings.read\<close>: the argument is the content of \<open>.np\<close> when that path exists and is
  a regular file, \<open>None\<close> otherwise.
\<close>

definition read ::
  "string list option \<Rightarrow> NPSettings \<times> message list \<Rightarrow> error option \<times> NPSettings \<times> message list" where
  "read np st = (case np of None \<Rightarrow> (None, st) | Some lines \<Rightarrow> read_lines 0 lines st)"

section \<open>The working directory\<close>

text \<open>
  A directory is the list of its entries in the order \<open>os.scandir\<close> returns them; a
  file holds its text. The script only names entries of the working directory, so
  that directory is the state.
\<close>

datatype node =
    File string
  | Dir "(string \<times> node) list"

type_synonym directory = "(string \<times> node) list"

text \<open>
  Text-mode reading with the default \<open>newline=None\<close>: a carriage return, alone or before a
  line feed, is delivered as a line feed.
\<close>

fun universal_newlines :: "string \<Rightarrow> string" where
  "universal_newlines [] = []"
| "universal_newlines [c] = (if c = CHR 0x0D then [NL] else [c])"
| "universal_newlines (c # d # cs) =
     (if c = CHR 0x0D then
        (if d = NL then NL # universal_newlines cs else NL # universal_newlines (d # cs))
      else c # universal_newlines (d # cs))"

text \<open>Cutting text after each line feed; \<open>cur\<close> is the line being collected.\<close>

fun splitlines :: "string \<Rightarrow> string \<Rightarrow> string list" where
  "splitlines cur [] = (if cur = [] then [] else [cur])"
| "splitlines cur (c # cs) =
     (if c = NL then (cur @ [c]) # splitlines [] cs else splitlines (cur @ [c]) cs)"

definition readlines :: "string \<Rightarrow> string list" where
  "readlines content = splitlines [] (universal_newlines content)"

text \<open>\<open>writelines\<close> on a file opened with \<open>'w'\<close>: the file becomes the lines, concatenated.\<close>

definition writelines :: "string list \<Rightarrow> string" where
  "writelines lines = concat lines"

fun write_file :: "string \<Rightarrow> string \<Rightarrow> directory \<Rightarrow> directory" where
  "write_file name content [] = [(name, File content)]"
| "write_file name content ((n, x) # rest) =
     (if n = name then (n, File content) # rest
      else (n, x) # write_file name content rest)"

section \<open>Paths\<close>

text \<open>\<open>os.path.join\<close> of two parts, POSIX flavour.\<close>

definition path_join :: "string \<Rightarrow> string \<Rightarrow> string" where
  "path_join a b =
     (if startswith b ''/'' then b
      else if a = [] \<or> endswith a ''/'' then a @ b
      else a @ ''/'' @ b)"

text \<open>The component loop of \<open>os.path.normpath\<close> on a relative path.\<close>

fun norm_comps :: "string list \<Rightarrow> string list \<Rightarrow> string list" where
  "norm_comps new_comps [] = new_comps"
| "norm_comps new_comps (part # comps) =
     (if part = [] \<or> part = ''.'' then norm_comps new_comps comps
      else if part \<noteq> ''..'' \<or> new_comps = [] \<or> last new_comps = ''..''
           then norm_comps (new_comps @ [part]) comps
      else norm_comps (butlast new_comps) comps)"

fun common_prefix_len :: "string list \<Rightarrow> string list \<Rightarrow> nat" where
  "common_prefix_len (x # xs) (y # ys) = (if x = y then Suc (common_prefix_len xs ys) else 0)"
| "common_prefix_len xs ys = 0"

fun join_sep :: "string \<Rightarrow> string list \<Rightarrow> string" where
  "join_sep sep [] = []"
| "join_sep sep [x] = x"
| "join_sep sep (x # y # ys) = x @ sep @ join_sep sep (y # ys)"

text \<open>
  \<open>os.path.relpath(path, start)\<close> for two relative paths that do not climb above the
  working directory: the working directory is a common prefix of both and cancels.
\<close>

definition relpath :: "string \<Rightarrow> string \<Rightarrow> string" where
  "relpath path start =
     (let start_list = norm_comps [] (split_on CHR ''/'' start);
          path_list = norm_comps [] (split_on CHR ''/'' path);
          i = common_prefix_len start_list path_list;
          rel_list = replicate (length start_list - i) ''..'' @ drop i path_list
      in if rel_list = [] then ''.'' else join_sep ''/'' rel_list)"

text \<open>
  \<open>os.walk(top)\<close>, top-down, links not followed: the directory itself with the names of
  its non-directories, then each subdirectory in turn. A \<open>top\<close> that is missing or is
  not a directory yields nothing.
\<close>

fun nondirs :: "directory \<Rightarrow> string list" where
  "nondirs [] = []"
| "nondirs ((name, File c) # rest) = name # nondirs rest"
| "nondirs ((name, Dir es) # rest) = nondirs rest"

fun walk :: "string \<Rightarrow> directory \<Rightarrow> (string \<times> string list) list"
  and walk_dirs :: "string \<Rightarrow> directory \<Rightarrow> (string \<times> string list) list" where
  "walk root entries = (root, nondirs entries) # walk_dirs root entries"
| "walk_dirs root [] = []"
| "walk_dirs root ((name, File c) # rest) = walk_dirs root rest"
| "walk_dirs root ((name, Dir es) # rest) = walk (path_join root name) es @ walk_dirs root rest"

definition os_walk :: "directory \<Rightarrow> string \<Rightarrow> (string \<times> string list) list" where
  "os_walk cwd root =
     (case map_of cwd root of
        Some (Dir entries) \<Rightarrow> walk root entries
      | Some (File c) \<Rightarrow> []
      | None \<Rightarrow> [])"

section \<open>seek_sources\<close>

definition language_extensions :: "string list" where
  "language_extensions = [''.c'', ''cpp'', ''cxx'', ''h'', ''hpp'', ''hxx'']"

text \<open>The line built for one matching file under \<open>root\<close>; \<open>expandtabs\<close> may raise.\<close>

definition format_path :: "string \<Rightarrow> NPSettings \<Rightarrow> string \<Rightarrow> string \<Rightarrow> error + string" where
  "format_path subfolder settings root file =
     (let path = [TAB] @ subfolder @ ''/''
                  @ replace (relpath (path_join root file) subfolder) [BACKSLASH] ''/''
                  @ [NL]
      in if \<not> use_tabs settings then expandtabs path (expanded_spaces settings) else Inr path)"

fun seek_files ::
  "string \<Rightarrow> NPSettings \<Rightarrow> string \<Rightarrow> string list \<Rightarrow> string list \<Rightarrow> error + string list" where
  "seek_files subfolder settings root [] resulting_paths = Inr resulting_paths"
| "seek_files subfolder settings root (file # files) resulting_paths =
     (if endswith_any file language_extensions then
        (case format_path subfolder settings root file of
           Inl e \<Rightarrow> Inl e
         | Inr path \<Rightarrow> seek_files subfolder settings root files (resulting_paths @ [path]))
      else seek_files subfolder settings root files resulting_paths)"

fun seek_walk ::
  "string \<Rightarrow> NPSettings \<Rightarrow> (string \<times> string list) list \<Rightarrow> string list \<Rightarrow> error + string list" where
  "seek_walk subfolder settings [] resulting_paths = Inr resulting_paths"
| "seek_walk subfolder settings ((root, files) # rest) resulting_paths =
     (case seek_files subfolder settings root files resulting_paths of
        Inl e \<Rightarrow> Inl e
      | Inr paths \<Rightarrow> seek_walk subfolder settings rest paths)"

text \<open>The comment line the no-files branch builds before its call of \<open>append\<close>.\<close>

definition no_paths_comment :: "string \<Rightarrow> NPSettings \<Rightarrow> error + string" where
  "no_paths_comment subfolder settings =
     (let c = [TAB] @ ''# project '' @ (if subfolder = ''src'' then ''sources'' else ''headers'')
      in if \<not> use_tabs settings then expandtabs c (expanded_spaces settings) else Inr c)"

text \<open>
  \<open>seek_sources\<close>. With no matching file the source builds the comment line and then
  reaches \<open>resulting_paths.append()\<close>, a call without its argument, which raises
  \<open>TypeError\<close>.
\<close>

definition seek_sources :: "directory \<Rightarrow> string \<Rightarrow> NPSettings \<Rightarrow> error + string list" where
  "seek_sources cwd subfolder settings =
     (case seek_walk subfolder settings (os_walk cwd subfolder) [] of
        Inl e \<Rightarrow> Inl e
      | Inr resulting_paths \<Rightarrow>
          if length resulting_paths = 0 then
            (case no_paths_comment subfolder settings of
               Inl e \<Rightarrow> Inl e
             | Inr comment \<Rightarrow> Inl TypeError)
          else Inr resulting_paths)"

section \<open>update_cmakelist_sources\<close>

definition search_data :: "(string \<times> string list) list" where
  "search_data = [(''src'', [''set'', ''SRCS'']), (''include'', [''set'', ''HDR''])]"

text \<open>
  The locals the two passes share: \<open>seek_end\<close> is assigned once before the outer loop,
  \<open>start_index\<close> and \<open>end_index\<close> are unbound (\<open>None\<close>) until a pass assigns them.
\<close>

record scan_vars =
  seek_end :: bool
  start_index :: "nat option"
  end_index :: "nat option"

definition scan_vars_init :: scan_vars where
  "scan_vars_init = \<lparr>seek_end = False, start_index = None, end_index = None\<rparr>"

text \<open>\<open>all(word in line for word in words)\<close>\<close>

definition all_words_in :: "string list \<Rightarrow> string \<Rightarrow> bool" where
  "all_words_in ws line = list_all (\<lambda>word. contains word line) ws"

definition scan_line :: "string list \<Rightarrow> nat \<Rightarrow> string \<Rightarrow> scan_vars \<Rightarrow> scan_vars" where
  "scan_line ws index line v =
     (if \<not> seek_end v then
        (if all_words_in ws line
         then v\<lparr>start_index := Some (index + 1), seek_end := True\<rparr>
         else v)
      else
        (if startswith line '')''
         then v\<lparr>seek_end := False, end_index := Some index\<rparr>
         else v))"

fun scan_lines :: "string list \<Rightarrow> nat \<Rightarrow> string list \<Rightarrow> scan_vars \<Rightarrow> scan_vars" where
  "scan_lines ws index [] v = v"
| "scan_lines ws index (line # rest) v = scan_lines ws (Suc index) rest (scan_line ws index line v)"

text \<open>\<open>del lines[s:e]\<close> and \<open>lines[s:0] = new\<close> for indices that are not negative.\<close>

definition del_slice :: "nat \<Rightarrow> nat \<Rightarrow> 'a list \<Rightarrow> 'a list" where
  "del_slice s e xs = take s xs @ drop (max s e) xs"

definition insert_slice :: "nat \<Rightarrow> 'a list \<Rightarrow> 'a list \<Rightarrow> 'a list" where
  "insert_slice s new xs = take s xs @ new @ drop s xs"

text \<open>One iteration of the outer loop: the scan, the discovery, the two slice statements.\<close>

definition update_section ::
  "directory \<Rightarrow> NPSettings \<Rightarrow> string \<times> string list \<Rightarrow> string list \<times> scan_vars
     \<Rightarrow> error + string list \<times> scan_vars" where
  "update_section cwd settings section st =
     (case st of (lines, v) \<Rightarrow>
        (let v' = scan_lines (snd section) 0 lines v
         in case seek_sources cwd (fst section) settings of
              Inl e \<Rightarrow> Inl e
            | Inr new_files \<Rightarrow>
                (case start_index v' of
                   None \<Rightarrow> Inl (UnboundLocalError ''start_index'')
                 | Some s \<Rightarrow>
                     (case end_index v' of
                        None \<Rightarrow> Inl (UnboundLocalError ''end_index'')
                      | Some e \<Rightarrow> Inr (insert_slice s new_files (del_slice s e lines), v')))))"

fun update_sections ::
  "directory \<Rightarrow> NPSettings \<Rightarrow> (string \<times> string list) list \<Rightarrow> string list \<times> scan_vars
     \<Rightarrow> error + string list \<times> scan_vars" where
  "update_sections cwd settings [] st = Inr st"
| "update_sections cwd settings (section # rest) st =
     (case update_section cwd settings section st of
        Inl e \<Rightarrow> Inl e
      | Inr st' \<Rightarrow> update_sections cwd settings rest st')"

text \<open>The content of \<open>.np\<close> as \<open>NPSettings.read\<close> sees it.\<close>

definition np_lines :: "directory \<Rightarrow> string list option" where
  "np_lines cwd =
     (case map_of cwd ''.np'' of
        Some (File c) \<Rightarrow> Some (readlines c)
      | Some (Dir es) \<Rightarrow> None
      | None \<Rightarrow> None)"

text \<open>
  \<open>update_cmakelist_sources\<close>: the result is the exception that escaped, if any, and the
  working directory as the run leaves it. The only write is the last step.
\<close>

definition update_cmakelist_sources :: "directory \<Rightarrow> error option \<times> directory" where
  "update_cmakelist_sources cwd =
     (case read (np_lines cwd) (NPSettings_init, []) of
        (Some e, st) \<Rightarrow> (Some e, cwd)
      | (None, settings, out) \<Rightarrow>
          (case map_of cwd ''CMakeLists.txt'' of
             None \<Rightarrow> (Some (FileNotFoundError ''CMakeLists.txt''), cwd)
           | Some (Dir es) \<Rightarrow> (Some (IsADirectoryError ''CMakeLists.txt''), cwd)
           | Some (File content) \<Rightarrow>
               (case update_sections cwd settings search_data (readlines content, scan_vars_init) of
                  Inl e \<Rightarrow> (Some e, cwd)
                | Inr (lines, v) \<Rightarrow> (None, write_file ''CMakeLists.txt'' (writelines lines) cwd))))"

section \<open>create_project\<close>

text \<open>
  The initializer only tests whether a path exists and creates entries at paths it
  spells out, so here the file system is a map from path text to what is there. Paths
  are compared as written; the working directory is the parent of a bare name.
\<close>

datatype entry =
    Directory
  | Regular string

type_synonym filesystem = "string \<rightharpoonup> entry"

text \<open>\<open>os.path.dirname\<close>\<close>

definition dirname :: "string \<Rightarrow> string" where
  "dirname p =
     (let head = rev (dropWhile (\<lambda>c. c \<noteq> CHR ''/'') (rev p))
      in if head \<noteq> [] \<and> head \<noteq> replicate (length head) CHR ''/''
         then rev (dropWhile (\<lambda>c. c = CHR ''/'') (rev head))
         else head)"

definition parent_entry :: "filesystem \<Rightarrow> string \<Rightarrow> entry option" where
  "parent_entry fs p = (if dirname p = [] then Some Directory else fs (dirname p))"

text \<open>\<open>os.mkdir(p)\<close>\<close>

definition mkdir :: "string \<Rightarrow> filesystem \<Rightarrow> error + filesystem" where
  "mkdir p fs =
     (if p = [] then Inl (FileNotFoundError p)
      else if fs p \<noteq> None then Inl (FileExistsError p)
      else (case parent_entry fs p of
              None \<Rightarrow> Inl (FileNotFoundError p)
            | Some (Regular c) \<Rightarrow> Inl (NotADirectoryError p)
            | Some Directory \<Rightarrow> Inr (fs(p \<mapsto> Directory))))"

text \<open>\<open>io.open(p, 'w')\<close>, \<open>write\<close>, \<open>flush\<close>, \<open>close\<close>: the file is created or replaced.\<close>

definition open_write :: "string \<Rightarrow> string \<Rightarrow> filesystem \<Rightarrow> error + filesystem" where
  "open_write p content fs =
     (case parent_entry fs p of
        None \<Rightarrow> Inl (FileNotFoundError p)
      | Some (Regular c) \<Rightarrow> Inl (NotADirectoryError p)
      | Some Directory \<Rightarrow>
          (case fs p of
             Some Directory \<Rightarrow> Inl (IsADirectoryError p)
           | Some (Regular c) \<Rightarrow> Inr (fs(p \<mapsto> Regular content))
           | None \<Rightarrow> Inr (fs(p \<mapsto> Regular content))))"

text \<open>
  \<open>make_project_folder\<close>: the returned flag, or the exception of a failed \<open>mkdir\<close>, with
  the file system and the printed lines as they are at that point.
\<close>

definition make_project_folder ::
  "string \<Rightarrow> filesystem \<times> string list \<Rightarrow> (error + bool) \<times> filesystem \<times> string list" where
  "make_project_folder filepath st =
     (case st of (fs, out) \<Rightarrow>
        if fs filepath \<noteq> None
        then (Inr False, fs, out @ [''File path already exists, try again. :D''])
        else
          (case mkdir filepath fs of
             Inl e \<Rightarrow> (Inl e, fs, out)
           | Inr fs1 \<Rightarrow>
               (case mkdir (filepath @ ''/src'') fs1 of
                  Inl e \<Rightarrow> (Inl e, fs1, out)
                | Inr fs2 \<Rightarrow>
                    (case mkdir (filepath @ ''/include'') fs2 of
                       Inl e \<Rightarrow> (Inl e, fs2, out)
                     | Inr fs3 \<Rightarrow> (Inr True, fs3, out)))))"

definition default_project_template :: string where
  "default_project_template =
     ''#\<newline># %project_name% CMakeLists.txt\<newline>#\<newline>\<newline>''
     @ ''project ( %project_name% LANGUAGES %languages% )\<newline>\<newline>''
     @ ''cmake_minimum_required( VERSION 3.18 )\<newline>\<newline>''
     @ ''set ( SRCS \<newline>  # project sources\<newline>)\<newline>''
     @ ''set ( HDRS\<newline>  # project headers\<newline>)\<newline>\<newline>''
     @ ''add_executable( %project_name% ${SRCS} ${HDRS} )\<newline>''
     @ ''target_include_directories( %project_name% PRIVATE include )\<newline>''"

text \<open>
  \<open>create_project\<close>. The flag \<open>make_project_folder\<close> returns is not looked at: both
  branches go on to write the build file.
\<close>

definition create_project ::
  "string \<Rightarrow> string option \<Rightarrow> string \<Rightarrow> filesystem \<times> string list
     \<Rightarrow> error option \<times> filesystem \<times> string list" where
  "create_project name filepath languages st =
     (let created_path = (case filepath of None \<Rightarrow> name | Some p \<Rightarrow> p)
      in case make_project_folder created_path st of
           (Inl e, fs', out') \<Rightarrow> (Some e, fs', out')
         | (Inr made, fs', out') \<Rightarrow>
             (let cmake_project =
                    replace (replace default_project_template ''%project_name%'' name)
                            ''%languages%'' languages
              in case open_write (created_path @ ''/CMakeLists.txt'') cmake_project fs' of
                   Inl e \<Rightarrow> (Some e, fs', out')
                 | Inr fs'' \<Rightarrow>
                     (None, fs'',
                      out' @ [''Done! Use `cd '' @ created_path @ ''` to navigate to ''
                              @ name @ ''.''])))"

section \<open>Notions the statements use\<close>

text \<open>
  A settings line that is looked at (not blank, no comment, two fields), its key and
  its value as \<open>read\<close> takes them.
\<close>

definition setting_line :: "string \<Rightarrow> bool" where
  "setting_line line =
     (strip line \<noteq> [] \<and> \<not> startswith (strip line) ''#''
      \<and> length (split_on CHR '':'' line) = 2)"

definition key_of :: "string \<Rightarrow> string" where
  "key_of line = lower (strip (split_on CHR '':'' line ! 0))"

definition value_of :: "string \<Rightarrow> string" where
  "value_of line = lower (strip (split_on CHR '':'' line ! 1))"

text \<open>
  A line with a recognised key whose value does not parse, and the exception the
  conversion of that value raises.
\<close>

definition malformed :: "string \<Rightarrow> bool" where
  "malformed line =
     (setting_line line
      \<and> ((key_of line = ''use_tabs'' \<and> isl (bool_check (value_of line)))
         \<or> (key_of line = ''expanded_spaces'' \<and> isl (py_int (value_of line)))))"

definition parse_error :: "string \<Rightarrow> error" where
  "parse_error line =
     (if key_of line = ''use_tabs'' then projl (bool_check (value_of line))
      else projl (py_int (value_of line)))"

text \<open>
  What one line that parses assigns: a line with the key \<open>use_tabs\<close> sets that field to
  the truth value of its value, a line with the key \<open>expanded_spaces\<close> sets that field
  to the integer its value denotes, any other line leaves the settings as they are.
\<close>

definition assigned :: "string \<Rightarrow> NPSettings \<Rightarrow> NPSettings" where
  "assigned line s =
     (if setting_line line \<and> key_of line = ''use_tabs'' then
        (case bool_check (value_of line) of
           Inr b \<Rightarrow> s\<lparr>use_tabs := b\<rparr>
         | Inl e \<Rightarrow> s)
      else if setting_line line \<and> key_of line = ''expanded_spaces'' then
        (case py_int (value_of line) of
           Inr n \<Rightarrow> s\<lparr>expanded_spaces := n\<rparr>
         | Inl e \<Rightarrow> s)
      else s)"

text \<open>
  The boundaries in the words of the specification: the start is the index after the
  first line with all marker tokens, the end the index of the first line from there on
  whose trimmed content begins with a closing parenthesis.
\<close>

fun first_index :: "('a \<Rightarrow> bool) \<Rightarrow> 'a list \<Rightarrow> nat option" where
  "first_index P [] = None"
| "first_index P (x # xs) = (if P x then Some 0 else map_option Suc (first_index P xs))"

definition spec_start_boundary :: "string list \<Rightarrow> string list \<Rightarrow> nat option" where
  "spec_start_boundary ws lines = map_option Suc (first_index (all_words_in ws) lines)"

definition spec_end_boundary :: "string list \<Rightarrow> nat \<Rightarrow> nat option" where
  "spec_end_boundary lines start =
     map_option (\<lambda>j. start + j)
       (first_index (\<lambda>l. startswith (strip l) '')'') (drop start lines))"

text \<open>
  A buffer \<open>pre @ m # mid @ c # post\<close> in which the scan for \<open>ws\<close> finds one region: \<open>m\<close> is
  the only line with all tokens of \<open>ws\<close> outside \<open>mid\<close>, and \<open>c\<close> is the first line after
  \<open>m\<close> that begins with a closing parenthesis.
\<close>

definition region_layout ::
  "string list \<Rightarrow> string list \<Rightarrow> string \<Rightarrow> string list \<Rightarrow> string \<Rightarrow> string list \<Rightarrow> bool" where
  "region_layout ws pre m mid c post =
     (list_all (\<lambda>l. \<not> all_words_in ws l) pre \<and> all_words_in ws m
      \<and> list_all (\<lambda>l. \<not> startswith l '')'') mid \<and> startswith c '')''
      \<and> list_all (\<lambda>l. \<not> all_words_in ws l) post)"

text \<open>
  The line of one matching file in the words of the specification: one indentation unit,
  the subdirectory, a slash, the relative path with backslashes turned into slashes, a
  line terminator. The unit is a tab, or as many spaces as the width says.
\<close>

definition indentation_unit :: "NPSettings \<Rightarrow> string" where
  "indentation_unit settings =
     (if use_tabs settings then [TAB] else replicate (nat (expanded_spaces settings)) CHR '' '')"

definition spec_line :: "string \<Rightarrow> NPSettings \<Rightarrow> string \<Rightarrow> string" where
  "spec_line subfolder settings rel =
     indentation_unit settings @ subfolder @ ''/'' @ replace rel [BACKSLASH] ''/'' @ [NL]"

text \<open>
  The files discovery is to include: those of the walk whose name ends with one of the
  six recognised extensions, in walk order, each with the directory it was found in.
\<close>

definition recognised :: "string \<Rightarrow> bool" where
  "recognised file =
     (\<exists>ext \<in> set [''.c'', ''cpp'', ''cxx'', ''h'', ''hpp'', ''hxx'']. suffix ext file)"

definition included_files :: "(string \<times> string list) list \<Rightarrow> (string \<times> string) list" where
  "included_files w =
     concat (map (\<lambda>(root, files). map (Pair root) (filter recognised files)) w)"

text \<open>The settings with which \<open>expandtabs\<close> does not raise.\<close>

definition width_fits :: "NPSettings \<Rightarrow> bool" where
  "width_fits settings =
     (use_tabs settings
      \<or> (- (2 ^ 31) \<le> expanded_spaces settings \<and> expanded_spaces settings < 2 ^ 31))"

text \<open>The line \<open>format_path\<close> returns when \<open>expandtabs\<close> does not raise.\<close>

definition formatted :: "string \<Rightarrow> NPSettings \<Rightarrow> string \<Rightarrow> string \<Rightarrow> string" where
  "formatted subfolder settings root file =
     (let path = [TAB] @ subfolder @ ''/''
                  @ replace (relpath (path_join root file) subfolder) [BACKSLASH] ''/''
                  @ [NL]
      in if \<not> use_tabs settings then expandtabs_from (expanded_spaces settings) 0 path
         else path)"

text \<open>
  A buffer in which the scan for \<open>ws\<close>, entered with fresh locals, cannot bind both
  indices: no line has all the tokens, or no line after the first such line begins with
  a closing parenthesis.
\<close>

definition region_missing :: "string list \<Rightarrow> string list \<Rightarrow> bool" where
  "region_missing ws lines =
     (case first_index (all_words_in ws) lines of
        None \<Rightarrow> True
      | Some i \<Rightarrow> list_all (\<lambda>l. \<not> startswith l '')'') (drop (Suc i) lines))"

text \<open>
  A build file whose sources list closes with an indented parenthesis; the only line
  that begins with one is the last, which closes the headers list.
\<close>

definition win_buffer :: "string list" where
  "win_buffer =
     [''set ( SRCS\<newline>'', ''  old.c\<newline>'', ''  )\<newline>'', ''if ( WIN32 )\<newline>'',
      ''  add_definitions( -DWIN )\<newline>'', ''endif ()\<newline>'', ''set ( HDRS\<newline>'', ''  old.h\<newline>'', '')\<newline>'']"

text \<open>
  A line as reading gives it back after writing: it ends with its only line feed and
  holds no carriage return.
\<close>

definition one_line :: "string \<Rightarrow> bool" where
  "one_line l = (l \<noteq> [] \<and> last l = NL \<and> NL \<notin> set (butlast l) \<and> CHR 0x0D \<notin> set l)"

text \<open>The working directory after the build file has been written with the given lines.\<close>

definition with_build_file :: "directory \<Rightarrow> string list \<Rightarrow> directory" where
  "with_build_file cwd lines = write_file ''CMakeLists.txt'' (writelines lines) cwd"

text \<open>
  The content of a region in the words of the specification: the lines from its start
  boundary up to its end boundary.
\<close>

definition spec_region_contents :: "string list \<Rightarrow> string list \<Rightarrow> string list option" where
  "spec_region_contents ws lines =
     (case spec_start_boundary ws lines of
        None \<Rightarrow> None
      | Some s \<Rightarrow>
          (case spec_end_boundary lines s of
             None \<Rightarrow> None
           | Some e \<Rightarrow> Some (take (e - s) (drop s lines))))"


text \<open>A project directory with one source and one header, around a given build file.\<close>

definition project_dir :: "string \<Rightarrow> directory" where
  "project_dir content =
     [(''CMakeLists.txt'', File content),
      (''src'', Dir [(''main.c'', File [])]),
      (''include'', Dir [(''util.h'', File [])])]"

section \<open>Settings: properties\<close>

lemma read_line_malformed:
  "malformed line \<Longrightarrow> read_line i line st = (Some (parse_error line), st)"
  by (cases st)
     (auto simp: malformed_def setting_line_def key_of_def value_of_def parse_error_def
                 read_line_def Let_def
           split: sum.splits)

lemma read_line_assigns:
  "\<not> malformed line \<Longrightarrow> \<exists>out'. read_line i line (s, out) = (None, assigned line s, out')"
  by (auto simp: malformed_def setting_line_def key_of_def value_of_def assigned_def
                 read_line_def Let_def
           split: sum.splits)

lemma read_lines_assign:
  "list_all (\<lambda>l. \<not> malformed l) pre \<Longrightarrow>
   \<exists>out'. read_lines i pre (s, out) = (None, foldl (\<lambda>s l. assigned l s) s pre, out')"
proof (induction pre arbitrary: i s out)
  case Nil
  then show ?case by simp
next
  case (Cons l pre)
  then have "\<not> malformed l" and rest: "list_all (\<lambda>l. \<not> malformed l) pre" by simp_all
  from read_line_assigns[OF this(1), of i s out]
  obtain out1 where 1: "read_line i l (s, out) = (None, assigned l s, out1)" by blast
  from Cons.IH[OF rest, of "Suc i" "assigned l s" out1]
  obtain out2 where
    "read_lines (Suc i) pre (assigned l s, out1)
     = (None, foldl (\<lambda>s l. assigned l s) (assigned l s) pre, out2)" by blast
  with 1 show ?case by simp
qed

lemma read_lines_append:
  "read_lines i pre st = (None, st') \<Longrightarrow>
   read_lines i (pre @ rest) st = read_lines (i + length pre) rest st'"
proof (induction pre arbitrary: i st)
  case Nil
  then show ?case by simp
next
  case (Cons x xs)
  then show ?case by (auto split: prod.splits option.splits)
qed

text \<open>The conversion limit: a literal of more than 4300 digits is refused.\<close>

lemma scan_run_all_digits:
  "list_all isdigit ds \<Longrightarrow> ds \<noteq> [] \<or> prev \<noteq> CHR ''_'' \<Longrightarrow>
   \<exists>v. scan_run prev d acc ds = Some (d + length ds, v, [])"
proof (induction ds arbitrary: prev d acc)
  case Nil
  then show ?case by simp
next
  case (Cons c cs)
  then have c: "isdigit c" and cs: "list_all isdigit cs" by simp_all
  from c have n: "c \<noteq> CHR ''_''" by (auto simp: isdigit_def)
  from c have "cs \<noteq> [] \<or> c \<noteq> CHR ''_''" by (auto simp: isdigit_def)
  from Cons.IH[OF cs this, of "Suc d" "10 * acc + (of_char c - 48)"] c n
  show ?case by auto
qed

lemma py_int_exceeds_limit:
  assumes "list_all isdigit ds" and "4300 < length ds"
  shows "py_int ds = Inl (exceeds_limit (length ds))"
proof -
  from assms(2) obtain c cs where ds: "ds = c # cs" by (cases ds) auto
  with assms(1) have c: "isdigit c" by simp
  have plain: "x \<noteq> CHR 0x85 \<and> x \<noteq> CHR 0xA0" if "isdigit x" for x
    using that by (auto simp: isdigit_def)
  have a: "to_ascii ds = ds"
    unfolding to_ascii_def using assms(1) plain by (intro map_idI) (auto simp: list_all_iff)
  have b: "dropWhile c_isspace ds = ds"
    using c ds by (auto simp: c_isspace_def isdigit_def)
  have s: "\<not> startswith ds ''+''" "\<not> startswith ds ''-''" "\<not> startswith ds ''_''"
    using c ds by (auto simp: isdigit_def)
  from scan_run_all_digits[OF assms(1), of "CHR 0x00" 0 0] ds
  obtain v where "scan_run (CHR 0x00) 0 0 ds = Some (length ds, v, [])" by auto
  with a b s assms(2) show ?thesis by (simp add: py_int_def Let_def)
qed

text \<open>
  C9, as stated, fails: the exception is the one the conversion raises, and its
  message is built from the value alone. The same \<open>ValueError\<close> comes out whether the
  offending line is the first or the second of the file, and however it is spelt. It
  does not identify the line.
\<close>

theorem read_error_same_for_different_lines_counterexample:
  "read (Some [''use_tabs: maybe\<newline>'']) (NPSettings_init, [])
     = (Some (ValueError (''invalid truth value '' @ [CHR 0x27] @ ''maybe'' @ [CHR 0x27])), NPSettings_init, [])
   \<and> read (Some [''\<newline>'', ''USE_TABS :  Maybe\<newline>'']) (NPSettings_init, [])
     = (Some (ValueError (''invalid truth value '' @ [CHR 0x27] @ ''maybe'' @ [CHR 0x27])), NPSettings_init, [])"
  by code_simp

text \<open>
  C9, amended: when some line has a recognised key and a value that does not parse, the
  load fails at the first such line, with the \<open>ValueError\<close> that the conversion to a
  truth value, respectively to an integer, raises for that line's stripped, lower-cased
  value.
\<close>

theorem read_fails_at_first_malformed_line:
  "List.find malformed lines = Some l \<Longrightarrow>
   fst (read_lines i lines st) = Some (parse_error l)"
proof (induction lines arbitrary: i st)
  case Nil
  then show ?case by simp
next
  case (Cons x xs)
  show ?case
  proof (cases "malformed x")
    case True
    with Cons.prems have "l = x" by simp
    with True show ?thesis by (simp add: read_line_malformed)
  next
    case False
    with Cons.prems have f: "List.find malformed xs = Some l" by simp
    obtain s out where st: "st = (s, out)" by (cases st)
    from read_line_assigns[OF False, of i s out] st
    obtain st' where "read_line i x st = (None, st')" by auto
    with Cons.IH[OF f] show ?thesis by simp
  qed
qed

theorem read_fails_at_first_malformed_line_witness:
  "List.find malformed [''use_tabs: on\<newline>'', ''expanded_spaces: wide\<newline>'', ''use_tabs: ?\<newline>'']
     = Some ''expanded_spaces: wide\<newline>''
   \<and> parse_error ''expanded_spaces: wide\<newline>'' = ValueError (''invalid literal for int() with base 10: '' @ [CHR 0x27] @ ''wide'' @ [CHR 0x27])
   \<and> fst (read_lines 0 [''use_tabs: on\<newline>'', ''expanded_spaces: wide\<newline>'', ''use_tabs: ?\<newline>''] (NPSettings_init, []))
     = Some (ValueError (''invalid literal for int() with base 10: '' @ [CHR 0x27] @ ''wide'' @ [CHR 0x27]))"
proof -
  have f: "List.find malformed [''use_tabs: on\<newline>'', ''expanded_spaces: wide\<newline>'', ''use_tabs: ?\<newline>'']
           = Some ''expanded_spaces: wide\<newline>''"
    by code_simp
  have q: "parse_error ''expanded_spaces: wide\<newline>'' = ValueError (''invalid literal for int() with base 10: '' @ [CHR 0x27] @ ''wide'' @ [CHR 0x27])"
    by code_simp
  show ?thesis
    using read_fails_at_first_malformed_line[OF f, of 0 "(NPSettings_init, [])"] f q by simp
qed

text \<open>
  C10: the load is not atomic. Each line that parses assigns its field as it is read:
  \<open>use_tabs\<close> the truth value, \<open>expanded_spaces\<close> the integer. When the lines \<open>pre\<close> all
  parse and the next line has a recognised key with a value that does not, the load
  raises that line's error and the object holds the assignments of \<open>pre\<close>, made in
  their order.
\<close>

theorem read_keeps_earlier_assignments:
  assumes "list_all (\<lambda>l. \<not> malformed l) pre" and "malformed line"
  shows "fst (read (Some (pre @ line # post)) (s, out)) = Some (parse_error line)
         \<and> fst (snd (read (Some (pre @ line # post)) (s, out)))
           = foldl (\<lambda>s l. assigned l s) s pre"
proof -
  from read_lines_assign[OF assms(1), of 0 s out]
  obtain out' where
    p: "read_lines 0 pre (s, out) = (None, foldl (\<lambda>s l. assigned l s) s pre, out')"
    by blast
  from read_lines_append[OF p, of "line # post"] assms(2)
  show ?thesis by (simp add: read_def read_line_malformed)
qed

theorem read_keeps_earlier_assignments_witness:
  "list_all (\<lambda>l. \<not> malformed l) [''use_tabs: yes\<newline>'', ''# width\<newline>'', ''expanded_spaces: 8\<newline>'']
   \<and> malformed ''expanded_spaces: two\<newline>''
   \<and> foldl (\<lambda>s l. assigned l s) NPSettings_init [''use_tabs: yes\<newline>'', ''# width\<newline>'', ''expanded_spaces: 8\<newline>'']
     = \<lparr>use_tabs = True, expanded_spaces = 8\<rparr>
   \<and> parse_error ''expanded_spaces: two\<newline>'' = ValueError (''invalid literal for int() with base 10: '' @ [CHR 0x27] @ ''two'' @ [CHR 0x27])
   \<and> fst (read (Some ([''use_tabs: yes\<newline>'', ''# width\<newline>'', ''expanded_spaces: 8\<newline>''] @ ''expanded_spaces: two\<newline>'' # [''use_tabs: no\<newline>''])) (NPSettings_init, []))
     = Some (ValueError (''invalid literal for int() with base 10: '' @ [CHR 0x27] @ ''two'' @ [CHR 0x27]))
   \<and> fst (snd (read (Some ([''use_tabs: yes\<newline>'', ''# width\<newline>'', ''expanded_spaces: 8\<newline>''] @ ''expanded_spaces: two\<newline>'' # [''use_tabs: no\<newline>''])) (NPSettings_init, [])))
     = \<lparr>use_tabs = True, expanded_spaces = 8\<rparr>"
proof -
  have a: "list_all (\<lambda>l. \<not> malformed l) [''use_tabs: yes\<newline>'', ''# width\<newline>'', ''expanded_spaces: 8\<newline>'']"
    by code_simp
  have b: "malformed ''expanded_spaces: two\<newline>''"
    by code_simp
  have c: "foldl (\<lambda>s l. assigned l s) NPSettings_init [''use_tabs: yes\<newline>'', ''# width\<newline>'', ''expanded_spaces: 8\<newline>'']
           = \<lparr>use_tabs = True, expanded_spaces = 8\<rparr>"
    by code_simp
  have d: "parse_error ''expanded_spaces: two\<newline>'' = ValueError (''invalid literal for int() with base 10: '' @ [CHR 0x27] @ ''two'' @ [CHR 0x27])"
    by code_simp
  show ?thesis
    using read_keeps_earlier_assignments[OF a b, of "[''use_tabs: no\<newline>'']" NPSettings_init "[]"] a b c d
    by simp
qed

section \<open>The scan and the rewrite of one region\<close>

lemma scan_lines_append:
  "scan_lines ws i (xs @ ys) v = scan_lines ws (i + length xs) ys (scan_lines ws i xs v)"
  by (induction xs arbitrary: i v) auto

lemma scan_lines_no_marker:
  "\<not> seek_end v \<Longrightarrow> list_all (\<lambda>l. \<not> all_words_in ws l) xs \<Longrightarrow> scan_lines ws i xs v = v"
  by (induction xs arbitrary: i) (auto simp: scan_line_def)

lemma scan_lines_no_closing:
  "seek_end v \<Longrightarrow> list_all (\<lambda>l. \<not> startswith l '')'') xs \<Longrightarrow> scan_lines ws i xs v = v"
  by (induction xs arbitrary: i) (auto simp: scan_line_def)

lemma scan_lines_through_region:
  fixes v :: scan_vars
  assumes "\<not> seek_end v"
    and "list_all (\<lambda>l. \<not> all_words_in ws l) pre" and "all_words_in ws m"
    and "list_all (\<lambda>l. \<not> startswith l '')'') mid" and "startswith c '')''"
  shows "scan_lines ws 0 (pre @ m # mid @ [c]) v =
         \<lparr>seek_end = False, start_index = Some (Suc (length pre)),
          end_index = Some (Suc (length pre + length mid))\<rparr>"
proof -
  have 1: "scan_lines ws 0 pre v = v"
    using assms(1,2) by (rule scan_lines_no_marker)
  let ?v1 = "v\<lparr>start_index := Some (Suc (length pre)), seek_end := True\<rparr>"
  have 2: "scan_line ws (length pre) m v = ?v1"
    using assms(1,3) by (simp add: scan_line_def)
  have 3: "scan_lines ws (Suc (length pre)) mid ?v1 = ?v1"
    using assms(4) by (intro scan_lines_no_closing) simp_all
  have 4: "scan_line ws (Suc (length pre + length mid)) c ?v1 =
           \<lparr>seek_end = False, start_index = Some (Suc (length pre)),
            end_index = Some (Suc (length pre + length mid))\<rparr>"
    using assms(5) by (simp add: scan_line_def)
  have "scan_lines ws 0 (pre @ m # mid @ [c]) v
        = scan_lines ws (length pre) (m # mid @ [c]) v"
    using 1 by (simp add: scan_lines_append)
  also have "\<dots> = scan_lines ws (Suc (length pre)) (mid @ [c]) ?v1"
    using 2 by simp
  also have "\<dots> = scan_lines ws (Suc (length pre + length mid)) [c] ?v1"
    using 3 by (simp add: scan_lines_append)
  also have "\<dots> = \<lparr>seek_end = False, start_index = Some (Suc (length pre)),
            end_index = Some (Suc (length pre + length mid))\<rparr>"
    using 4 by simp
  finally show ?thesis .
qed

lemma scan_lines_located:
  fixes v :: scan_vars
  assumes "\<not> seek_end v" and "region_layout ws pre m mid c post"
  shows "scan_lines ws 0 (pre @ m # mid @ c # post) v =
         \<lparr>seek_end = False, start_index = Some (Suc (length pre)),
          end_index = Some (Suc (length pre + length mid))\<rparr>"
proof -
  let ?r = "\<lparr>seek_end = False, start_index = Some (Suc (length pre)),
          end_index = Some (Suc (length pre + length mid))\<rparr>"
  have a: "scan_lines ws 0 (pre @ m # mid @ [c]) v = ?r"
    using assms by (intro scan_lines_through_region) (simp_all add: region_layout_def)
  have "scan_lines ws 0 ((pre @ m # mid @ [c]) @ post) v
        = scan_lines ws (length (pre @ m # mid @ [c])) post ?r"
    using a by (simp only: scan_lines_append add_0)
  also have "\<dots> = ?r"
    using assms(2) by (intro scan_lines_no_marker) (simp_all add: region_layout_def)
  finally show ?thesis by simp
qed

lemma slices_replace_region:
  "insert_slice (Suc (length pre)) new
     (del_slice (Suc (length pre)) (Suc (length pre + length mid)) (pre @ m # mid @ c # post))
   = pre @ m # new @ c # post"
  by (simp add: insert_slice_def del_slice_def max_def)

lemma update_section_located:
  assumes "\<not> seek_end v" and "region_layout (snd section) pre m mid c post"
    and "seek_sources cwd (fst section) settings = Inr new_files"
  shows "update_section cwd settings section (pre @ m # mid @ c # post, v) =
         Inr (pre @ m # new_files @ c # post,
              \<lparr>seek_end = False, start_index = Some (Suc (length pre)),
               end_index = Some (Suc (length pre + length mid))\<rparr>)"
  using assms(3)
  by (simp add: update_section_def scan_lines_located[OF assms(1,2)] slices_replace_region)

lemma scan_lines_forgets:
  fixes v :: scan_vars
  assumes "\<not> seek_end v"
    and "list_all (\<lambda>l. \<not> all_words_in ws l) pre" and "all_words_in ws m"
    and "list_all (\<lambda>l. \<not> startswith l '')'') mid" and "startswith c '')''"
  shows "scan_lines ws 0 (pre @ m # mid @ c # post) v =
         scan_lines ws 0 (pre @ m # mid @ c # post) scan_vars_init"
proof -
  have i: "\<not> seek_end scan_vars_init" by (simp add: scan_vars_init_def)
  have "scan_lines ws 0 ((pre @ m # mid @ [c]) @ post) v =
        scan_lines ws 0 ((pre @ m # mid @ [c]) @ post) scan_vars_init"
    using scan_lines_append[of ws 0 "pre @ m # mid @ [c]" post v]
      scan_lines_append[of ws 0 "pre @ m # mid @ [c]" post scan_vars_init]
      scan_lines_through_region[OF assms] scan_lines_through_region[OF i assms(2-)]
    by simp
  then show ?thesis by simp
qed


text \<open>
  C2, as stated, fails twice. The closing line is tested as it stands, not trimmed: in
  the first buffer the indented parenthesis at index 2 is passed over and the end is 3.
  The scan does not stop at the first region: in the second buffer a later line with
  both tokens moves the start from 1 to 3.
\<close>

theorem scan_boundaries_differ_from_spec_counterexample:
  "spec_end_boundary [''set ( SRCS\<newline>'', ''  old.c\<newline>'', ''  )\<newline>'', '')\<newline>''] 1 = Some 2
   \<and> end_index (scan_lines [''set'', ''SRCS''] 0
                  [''set ( SRCS\<newline>'', ''  old.c\<newline>'', ''  )\<newline>'', '')\<newline>''] scan_vars_init) = Some 3
   \<and> spec_start_boundary [''set'', ''SRCS'']
        [''set ( SRCS\<newline>'', '')\<newline>'', ''add_library( dataset ${SRCS} )\<newline>'', '')\<newline>''] = Some 1
   \<and> start_index (scan_lines [''set'', ''SRCS''] 0
        [''set ( SRCS\<newline>'', '')\<newline>'', ''add_library( dataset ${SRCS} )\<newline>'', '')\<newline>'']
        scan_vars_init) = Some 3"
  by code_simp

text \<open>
  C2, amended: in a buffer \<open>pre @ m # mid @ c # post\<close> where \<open>m\<close> is the first line with all
  marker tokens, \<open>c\<close> the first line after it that itself begins with a closing
  parenthesis, and no line after \<open>c\<close> has all the tokens, a pass entered with the scan
  flag cleared puts the start just after \<open>m\<close> and the end at \<open>c\<close>, keeps both lines, and
  replaces exactly \<open>mid\<close> by the discovered lines in their order.
\<close>

theorem update_section_replaces_region:
  assumes "\<not> seek_end v" and "region_layout (snd section) pre m mid c post"
    and "seek_sources cwd (fst section) settings = Inr new_files"
  shows "update_section cwd settings section (pre @ m # mid @ c # post, v) =
         Inr (pre @ m # new_files @ c # post,
              \<lparr>seek_end = False, start_index = Some (length pre + 1),
               end_index = Some (length pre + 1 + length mid)\<rparr>)"
  using update_section_located[OF assms] by simp

theorem update_section_replaces_region_witness:
  "\<not> seek_end scan_vars_init
   \<and> region_layout (snd (''src'', [''set'', ''SRCS''])) [''project ( demo )\<newline>''] ''set ( SRCS \<newline>''
        [''  # project sources\<newline>''] '')\<newline>'' [''set ( HDRS\<newline>'', '')\<newline>'']
   \<and> seek_sources (project_dir []) (fst (''src'', [''set'', ''SRCS''])) NPSettings_init
        = Inr [''  src/main.c\<newline>'']
   \<and> update_section (project_dir []) NPSettings_init (''src'', [''set'', ''SRCS''])
        ([''project ( demo )\<newline>''] @ ''set ( SRCS \<newline>'' # [''  # project sources\<newline>'']
           @ '')\<newline>'' # [''set ( HDRS\<newline>'', '')\<newline>''], scan_vars_init)
      = Inr ([''project ( demo )\<newline>'', ''set ( SRCS \<newline>'', ''  src/main.c\<newline>'', '')\<newline>'',
              ''set ( HDRS\<newline>'', '')\<newline>''],
             \<lparr>seek_end = False, start_index = Some 2, end_index = Some 3\<rparr>)"
proof -
  have a: "\<not> seek_end scan_vars_init"
    by (simp add: scan_vars_init_def)
  have b: "region_layout (snd (''src'', [''set'', ''SRCS''])) [''project ( demo )\<newline>'']
             ''set ( SRCS \<newline>'' [''  # project sources\<newline>''] '')\<newline>''
             [''set ( HDRS\<newline>'', '')\<newline>'']"
    by code_simp
  have c: "seek_sources (project_dir []) (fst (''src'', [''set'', ''SRCS''])) NPSettings_init
             = Inr [''  src/main.c\<newline>'']"
    by code_simp
  show ?thesis
    using update_section_replaces_region[OF a b c] a b c by simp
qed

text \<open>
  C3, as stated, fails: the flag and both indices are locals of the whole function and
  reach the headers pass as the sources pass left them. Here the sources pass ends
  with the flag set (a later line names \<open>SRCS\<close> and has no closing line after it); the
  headers pass then starts by looking for a closing line, steps over the \<open>HDRS\<close> line at
  index 0 and keeps the stale start 5, where a scan with fresh locals finds start 1.
\<close>

theorem headers_scan_uses_carried_state_counterexample:
  "scan_lines [''set'', ''SRCS''] 0
     [''set ( HDRS\<newline>'', '')\<newline>'', ''set ( SRCS\<newline>'', '')\<newline>'', ''add_library( dataset ${SRCS} )\<newline>'']
     scan_vars_init
     = \<lparr>seek_end = True, start_index = Some 5, end_index = Some 3\<rparr>
   \<and> update_section (project_dir []) NPSettings_init (''src'', [''set'', ''SRCS''])
       ([''set ( HDRS\<newline>'', '')\<newline>'', ''set ( SRCS\<newline>'', '')\<newline>'', ''add_library( dataset ${SRCS} )\<newline>''],
        scan_vars_init)
     = Inr ([''set ( HDRS\<newline>'', '')\<newline>'', ''set ( SRCS\<newline>'', '')\<newline>'',
             ''add_library( dataset ${SRCS} )\<newline>'', ''  src/main.c\<newline>''],
            \<lparr>seek_end = True, start_index = Some 5, end_index = Some 3\<rparr>)
   \<and> scan_lines [''set'', ''HDR''] 0
       [''set ( HDRS\<newline>'', '')\<newline>'', ''set ( SRCS\<newline>'', '')\<newline>'',
        ''add_library( dataset ${SRCS} )\<newline>'', ''  src/main.c\<newline>'']
       \<lparr>seek_end = True, start_index = Some 5, end_index = Some 3\<rparr>
     = \<lparr>seek_end = False, start_index = Some 5, end_index = Some 1\<rparr>
   \<and> scan_lines [''set'', ''HDR''] 0
       [''set ( HDRS\<newline>'', '')\<newline>'', ''set ( SRCS\<newline>'', '')\<newline>'',
        ''add_library( dataset ${SRCS} )\<newline>'', ''  src/main.c\<newline>'']
       scan_vars_init
     = \<lparr>seek_end = False, start_index = Some 1, end_index = Some 1\<rparr>"
  by code_simp

text \<open>
  C3, amended: the headers pass scans the buffer the sources pass left, from index 0.
  When the sources pass left the scan flag cleared and the buffer has a line with all
  header tokens and, after it, a line beginning with a closing parenthesis, the pass
  is the one fresh locals would give: its boundaries and its result depend only on
  the buffer and the header tokens.
\<close>

theorem update_section_independent_of_carried_indices:
  assumes "\<not> seek_end v"
    and "list_all (\<lambda>l. \<not> all_words_in (snd section) l) pre" and "all_words_in (snd section) m"
    and "list_all (\<lambda>l. \<not> startswith l '')'') mid" and "startswith c '')''"
  shows "update_section cwd settings section (pre @ m # mid @ c # post, v) =
         update_section cwd settings section (pre @ m # mid @ c # post, scan_vars_init)"
  by (simp add: update_section_def scan_lines_forgets[OF assms])

theorem update_section_independent_of_carried_indices_witness:
  "\<not> seek_end \<lparr>seek_end = False, start_index = Some 1, end_index = Some 1\<rparr>
   \<and> list_all (\<lambda>l. \<not> all_words_in (snd (''include'', [''set'', ''HDR''])) l)
        [''set ( SRCS\<newline>'', ''  src/main.c\<newline>'', '')\<newline>'']
   \<and> all_words_in (snd (''include'', [''set'', ''HDR''])) ''set ( HDRS\<newline>''
   \<and> list_all (\<lambda>l. \<not> startswith l '')'') [''  old.h\<newline>'']
   \<and> startswith '')\<newline>'' '')''
   \<and> update_section (project_dir []) NPSettings_init (''include'', [''set'', ''HDR''])
        ([''set ( SRCS\<newline>'', ''  src/main.c\<newline>'', '')\<newline>''] @ ''set ( HDRS\<newline>'' # [''  old.h\<newline>'']
           @ '')\<newline>'' # [], \<lparr>seek_end = False, start_index = Some 1, end_index = Some 1\<rparr>)
      = update_section (project_dir []) NPSettings_init (''include'', [''set'', ''HDR''])
        ([''set ( SRCS\<newline>'', ''  src/main.c\<newline>'', '')\<newline>''] @ ''set ( HDRS\<newline>'' # [''  old.h\<newline>'']
           @ '')\<newline>'' # [], scan_vars_init)"
proof -
  have a: "\<not> seek_end \<lparr>seek_end = False, start_index = Some 1, end_index = Some 1\<rparr>"
    by simp
  have b: "list_all (\<lambda>l. \<not> all_words_in (snd (''include'', [''set'', ''HDR''])) l)
             [''set ( SRCS\<newline>'', ''  src/main.c\<newline>'', '')\<newline>'']"
    by code_simp
  have c: "all_words_in (snd (''include'', [''set'', ''HDR''])) ''set ( HDRS\<newline>''"
    by code_simp
  have d: "list_all (\<lambda>l. \<not> startswith l '')'') [''  old.h\<newline>'']"
    by code_simp
  have e: "startswith '')\<newline>'' '')''"
    by code_simp
  show ?thesis
    using update_section_independent_of_carried_indices[OF a b c d e] a b c d e by blast
qed

section \<open>Discovery: properties\<close>

lemma startswith_prefix: "startswith s p = prefix p s"
  by (induction s p rule: startswith.induct) auto

lemma endswith_suffix: "endswith s suf = suffix suf s"
  by (simp add: endswith_def startswith_prefix suffix_to_prefix)

lemma endswith_any_recognised: "endswith_any file language_extensions = recognised file"
  by (simp add: endswith_any_def language_extensions_def recognised_def endswith_suffix)

lemma format_path_fits:
  "width_fits settings \<Longrightarrow>
   format_path subfolder settings root file = Inr (formatted subfolder settings root file)"
  by (auto simp: width_fits_def format_path_def formatted_def expandtabs_def Let_def)

lemma format_path_overflow:
  "\<not> width_fits settings \<Longrightarrow> format_path subfolder settings root file = Inl OverflowError"
  by (auto simp: width_fits_def format_path_def expandtabs_def Let_def)

lemma seek_files_eq:
  "seek_files subfolder settings root files acc =
   (if filter recognised files = [] then Inr acc
    else if width_fits settings
         then Inr (acc @ map (formatted subfolder settings root) (filter recognised files))
    else Inl OverflowError)"
proof (induction files arbitrary: acc)
  case Nil
  then show ?case by simp
next
  case (Cons f fs)
  show ?case
  proof (cases "width_fits settings")
    case True
    then show ?thesis
      by (simp add: Cons.IH endswith_any_recognised format_path_fits)
  next
    case False
    then show ?thesis
      by (simp add: Cons.IH endswith_any_recognised format_path_overflow)
  qed
qed

lemma seek_walk_eq:
  "seek_walk subfolder settings w acc =
   (if included_files w = [] then Inr acc
    else if width_fits settings
         then Inr (acc @ map (\<lambda>(root, file). formatted subfolder settings root file)
                             (included_files w))
    else Inl OverflowError)"
proof (induction w arbitrary: acc)
  case Nil
  then show ?case by (simp add: included_files_def)
next
  case (Cons rf w)
  obtain root files where rf: "rf = (root, files)" by (cases rf)
  have split: "included_files ((root, files) # w)
               = map (Pair root) (filter recognised files) @ included_files w"
    by (simp add: included_files_def)
  show ?case
    unfolding rf by (auto simp: split Cons.IH seek_files_eq comp_def)
qed

lemma no_paths_comment_overflow:
  "\<not> width_fits settings \<Longrightarrow> no_paths_comment subfolder settings = Inl OverflowError"
  by (auto simp: width_fits_def no_paths_comment_def expandtabs_def Let_def)

lemma seek_sources_eq:
  "seek_sources cwd subfolder settings =
   (if \<not> width_fits settings then Inl OverflowError
    else if included_files (os_walk cwd subfolder) = [] then Inl TypeError
    else Inr (map (\<lambda>(root, file). formatted subfolder settings root file)
                  (included_files (os_walk cwd subfolder))))"
proof (cases "width_fits settings")
  case True
  then have "\<exists>c. no_paths_comment subfolder settings = Inr c"
    by (auto simp: width_fits_def no_paths_comment_def expandtabs_def Let_def)
  with True show ?thesis
    by (auto simp: seek_sources_def seek_walk_eq)
next
  case False
  then show ?thesis
    by (simp add: seek_sources_def seek_walk_eq no_paths_comment_overflow)
qed

lemma expandtabs_from_no_tab: "TAB \<notin> set s \<Longrightarrow> expandtabs_from t j s = s"
  by (induction s arbitrary: j) auto

lemma expandtabs_from_leading_tab:
  "TAB \<notin> set s \<Longrightarrow> expandtabs_from t 0 (TAB # s) = replicate (nat t) CHR '' '' @ s"
  by (simp add: expandtabs_from_no_tab Let_def)

lemma set_replace_str: "set (replace_str old new k s) \<subseteq> set s \<union> set new"
  by (induction old new k s rule: replace_str.induct) auto

lemma replace_no_tab: "TAB \<notin> set s \<Longrightarrow> TAB \<notin> set new \<Longrightarrow> TAB \<notin> set (replace s old new)"
  using set_replace_str[of old new 0 s] by (auto simp: replace_def)

lemma formatted_spec_line:
  assumes "use_tabs settings \<or>
           (TAB \<notin> set subfolder \<and> TAB \<notin> set (relpath (path_join root file) subfolder))"
  shows "formatted subfolder settings root file =
         spec_line subfolder settings (relpath (path_join root file) subfolder)"
proof (cases "use_tabs settings")
  case True
  then show ?thesis
    by (simp add: formatted_def spec_line_def indentation_unit_def)
next
  case False
  with assms have t: "TAB \<notin> set subfolder"
    and r: "TAB \<notin> set (relpath (path_join root file) subfolder)" by auto
  have "TAB \<notin> set (replace (relpath (path_join root file) subfolder) [BACKSLASH] ''/'')"
    using r by (intro replace_no_tab) (simp_all add: TAB_def)
  with t have "TAB \<notin> set (subfolder @ ''/''
                  @ replace (relpath (path_join root file) subfolder) [BACKSLASH] ''/'' @ [NL])"
    by (simp add: TAB_def NL_def)
  from expandtabs_from_leading_tab[OF this] False show ?thesis
    by (simp add: formatted_def spec_line_def indentation_unit_def)
qed

text \<open>
  C7, as stated, fails twice. In spaces mode \<open>expandtabs\<close> runs over the whole line, so a
  tab inside a file name is expanded too: the file \<open>a<TAB>b.c\<close> under \<open>src\<close> gives the line
  with a space in the name. And a width a settings file can hold, 2147483648, is no C
  \<open>int\<close>: \<open>expandtabs\<close> raises and discovery returns no line.
\<close>

theorem seek_sources_expands_tab_in_name_counterexample:
  "seek_sources [(''src'', Dir [(''a'' @ [TAB] @ ''b.c'', File [])])] ''src'' NPSettings_init
     = Inr [''  src/a b.c\<newline>'']
   \<and> relpath (path_join ''src'' (''a'' @ [TAB] @ ''b.c'')) ''src'' = ''a'' @ [TAB] @ ''b.c''
   \<and> spec_line ''src'' NPSettings_init (''a'' @ [TAB] @ ''b.c'')
     = ''  src/a'' @ [TAB] @ ''b.c\<newline>''
   \<and> read (Some [''expanded_spaces: 2147483648\<newline>'']) (NPSettings_init, [])
     = (None, \<lparr>use_tabs = False, expanded_spaces = 2147483648\<rparr>, [])
   \<and> seek_sources [(''src'', Dir [(''main.c'', File [])])] ''src''
       \<lparr>use_tabs = False, expanded_spaces = 2147483648\<rparr>
     = Inl OverflowError"
  by code_simp

text \<open>
  C7, amended: in tabs mode, or in spaces mode with a width in the range of a C \<open>int\<close>,
  and with at least one file to include, discovery returns one line for each file of
  the walk whose name ends with one of the six extensions, in walk order, and no other
  line. The line of such a file is the indentation unit (a tab, or \<open>expanded_spaces\<close>
  spaces, none when that width is not positive), the subdirectory, a slash, the file's
  relative path with backslashes turned into slashes, and a line feed, whenever the
  mode is tabs or neither the subdirectory name nor that path holds a tab character.
\<close>

theorem seek_sources_lists_included_files:
  assumes "use_tabs settings
           \<or> (- (2 ^ 31) \<le> expanded_spaces settings \<and> expanded_spaces settings < 2 ^ 31)"
    and "included_files (os_walk cwd subfolder) \<noteq> []"
  shows "\<exists>lines.
           seek_sources cwd subfolder settings = Inr lines
           \<and> list_all2
               (\<lambda>(root, file) line.
                  use_tabs settings
                  \<or> (TAB \<notin> set subfolder
                     \<and> TAB \<notin> set (relpath (path_join root file) subfolder))
                  \<longrightarrow> line = spec_line subfolder settings
                               (relpath (path_join root file) subfolder))
               (included_files (os_walk cwd subfolder)) lines"
proof -
  let ?inc = "included_files (os_walk cwd subfolder)"
  let ?lines = "map (\<lambda>(root, file). formatted subfolder settings root file) ?inc"
  from assms have "seek_sources cwd subfolder settings = Inr ?lines"
    by (simp add: seek_sources_eq width_fits_def)
  moreover have "list_all2
               (\<lambda>(root, file) line.
                  use_tabs settings
                  \<or> (TAB \<notin> set subfolder
                     \<and> TAB \<notin> set (relpath (path_join root file) subfolder))
                  \<longrightarrow> line = spec_line subfolder settings
                               (relpath (path_join root file) subfolder))
               ?inc ?lines"
    by (auto simp: list_all2_map2 intro!: list_all2_same[THEN iffD2] formatted_spec_line)
  ultimately show ?thesis by blast
qed


theorem seek_sources_lists_included_files_witness:
  "(use_tabs NPSettings_init
      \<or> (- (2 ^ 31) \<le> expanded_spaces NPSettings_init \<and> expanded_spaces NPSettings_init < 2 ^ 31))
   \<and> included_files (os_walk [(''src'', Dir [(''a'' @ [TAB] @ ''b.c'', File []), (''main.c'', File []), (''notes.txt'', File [])])] ''src'')
     = [(''src'', ''a'' @ [TAB] @ ''b.c''), (''src'', ''main.c'')]
   \<and> (TAB \<notin> set ''src'' \<and> TAB \<notin> set (relpath (path_join ''src'' ''main.c'') ''src''))
   \<and> map_sum id (\<lambda>lines. (length lines, lines ! 1)) (seek_sources [(''src'', Dir [(''a'' @ [TAB] @ ''b.c'', File []), (''main.c'', File []), (''notes.txt'', File [])])] ''src'' NPSettings_init)
     = Inr (2, spec_line ''src'' NPSettings_init (relpath (path_join ''src'' ''main.c'') ''src''))
   \<and> spec_line ''src'' NPSettings_init (relpath (path_join ''src'' ''main.c'') ''src'')
     = ''  src/main.c\<newline>''"
proof -
  have h: "use_tabs NPSettings_init
      \<or> (- (2 ^ 31) \<le> expanded_spaces NPSettings_init \<and> expanded_spaces NPSettings_init < 2 ^ 31)"
    by (simp add: NPSettings_init_def)
  have m: "included_files (os_walk [(''src'', Dir [(''a'' @ [TAB] @ ''b.c'', File []), (''main.c'', File []), (''notes.txt'', File [])])] ''src'')
           = [(''src'', ''a'' @ [TAB] @ ''b.c''), (''src'', ''main.c'')]"
    by code_simp
  have ne: "included_files (os_walk [(''src'', Dir [(''a'' @ [TAB] @ ''b.c'', File []), (''main.c'', File []), (''notes.txt'', File [])])] ''src'') \<noteq> []"
    unfolding m by simp
  have t: "TAB \<notin> set ''src'' \<and> TAB \<notin> set (relpath (path_join ''src'' ''main.c'') ''src'')"
    by code_simp
  have l: "spec_line ''src'' NPSettings_init (relpath (path_join ''src'' ''main.c'') ''src'')
           = ''  src/main.c\<newline>''"
    by code_simp
  from seek_sources_lists_included_files[OF h ne]
  obtain lines where s: "seek_sources [(''src'', Dir [(''a'' @ [TAB] @ ''b.c'', File []), (''main.c'', File []), (''notes.txt'', File [])])] ''src'' NPSettings_init = Inr lines"
    and a: "list_all2
               (\<lambda>(root, file) line.
                  use_tabs NPSettings_init
                  \<or> (TAB \<notin> set ''src''
                     \<and> TAB \<notin> set (relpath (path_join root file) ''src''))
                  \<longrightarrow> line = spec_line ''src'' NPSettings_init
                               (relpath (path_join root file) ''src''))
               (included_files (os_walk [(''src'', Dir [(''a'' @ [TAB] @ ''b.c'', File []), (''main.c'', File []), (''notes.txt'', File [])])] ''src'')) lines"
    by blast
  from a t have "length lines = 2
                 \<and> lines ! 1 = spec_line ''src'' NPSettings_init
                                  (relpath (path_join ''src'' ''main.c'') ''src'')"
    unfolding m by (auto simp: list_all2_Cons1)
  with s h m t l show ?thesis by simp
qed

text \<open>
  C6: the claim describes what the no-files branch is written to do, and the code does
  not do it. The branch builds the comment line and then calls \<open>append\<close> without it, so
  for a directory with no matching file, empty or not, discovery raises \<open>TypeError\<close> and
  returns no line at all.
\<close>

theorem seek_sources_no_match_raises:
  "seek_sources [(''src'', Dir [(''notes.txt'', File [])]), (''include'', Dir [])] ''src''
     NPSettings_init = Inl TypeError
   \<and> seek_sources [(''src'', Dir [(''notes.txt'', File [])]), (''include'', Dir [])] ''include''
     NPSettings_init = Inl TypeError
   \<and> no_paths_comment ''src'' NPSettings_init = Inr ''  # project sources''
   \<and> no_paths_comment ''include'' NPSettings_init = Inr ''  # project headers''"
  by code_simp

section \<open>The initializer: properties\<close>

text \<open>
  C8: the claim is what \<open>make_project_folder\<close> is written for, and \<open>create_project\<close> breaks
  it by not looking at the returned flag. For a target that is an existing directory the
  failure is reported, and then the build file inside it is replaced by the template.
\<close>

theorem create_project_overwrites_existing_target:
  "make_project_folder ''demo''
     ([''demo'' \<mapsto> Directory, ''demo/CMakeLists.txt'' \<mapsto> Regular ''precious''], [])
     = (Inr False, [''demo'' \<mapsto> Directory, ''demo/CMakeLists.txt'' \<mapsto> Regular ''precious''],
        [''File path already exists, try again. :D''])
   \<and> (fst (create_project ''demo'' None ''C/CXX''
            ([''demo'' \<mapsto> Directory, ''demo/CMakeLists.txt'' \<mapsto> Regular ''precious''], [])) = None
      \<and> fst (snd (create_project ''demo'' None ''C/CXX''
            ([''demo'' \<mapsto> Directory, ''demo/CMakeLists.txt'' \<mapsto> Regular ''precious''], [])))
           ''demo/CMakeLists.txt''
        = Some (Regular (replace (replace default_project_template ''%project_name%'' ''demo'')
                                 ''%languages%'' ''C/CXX''))
      \<and> replace (replace default_project_template ''%project_name%'' ''demo'')
                 ''%languages%'' ''C/CXX'' \<noteq> ''precious'')"
proof
  show "make_project_folder ''demo''
     ([''demo'' \<mapsto> Directory, ''demo/CMakeLists.txt'' \<mapsto> Regular ''precious''], [])
     = (Inr False, [''demo'' \<mapsto> Directory, ''demo/CMakeLists.txt'' \<mapsto> Regular ''precious''],
        [''File path already exists, try again. :D''])"
    by (simp add: make_project_folder_def)
next
  show "fst (create_project ''demo'' None ''C/CXX''
            ([''demo'' \<mapsto> Directory, ''demo/CMakeLists.txt'' \<mapsto> Regular ''precious''], [])) = None
      \<and> fst (snd (create_project ''demo'' None ''C/CXX''
            ([''demo'' \<mapsto> Directory, ''demo/CMakeLists.txt'' \<mapsto> Regular ''precious''], [])))
           ''demo/CMakeLists.txt''
        = Some (Regular (replace (replace default_project_template ''%project_name%'' ''demo'')
                                 ''%languages%'' ''C/CXX''))
      \<and> replace (replace default_project_template ''%project_name%'' ''demo'')
                 ''%languages%'' ''C/CXX'' \<noteq> ''precious''"
    by code_simp
qed

section \<open>The update as a whole: abort\<close>

lemma first_index_None: "first_index P xs = None \<Longrightarrow> list_all (\<lambda>x. \<not> P x) xs"
  by (induction xs) (auto split: if_splits)

lemma first_index_Some:
  "first_index P xs = Some i \<Longrightarrow>
   xs = take i xs @ (xs ! i) # drop (Suc i) xs \<and> P (xs ! i) \<and> list_all (\<lambda>x. \<not> P x) (take i xs)"
proof (induction xs arbitrary: i)
  case Nil
  then show ?case by simp
next
  case (Cons x xs)
  show ?case
  proof (cases "P x")
    case True
    with Cons.prems show ?thesis by simp
  next
    case False
    with Cons.prems obtain j where j: "first_index P xs = Some j" and i: "i = Suc j"
      by auto
    from Cons.IH[OF j] False i show ?thesis by simp
  qed
qed

lemma scan_lines_region_missing:
  assumes "region_missing ws lines"
  shows "start_index (scan_lines ws 0 lines scan_vars_init) = None
         \<or> end_index (scan_lines ws 0 lines scan_vars_init) = None"
proof (cases "first_index (all_words_in ws) lines")
  case None
  then have "scan_lines ws 0 lines scan_vars_init = scan_vars_init"
    by (intro scan_lines_no_marker first_index_None) (simp_all add: scan_vars_init_def)
  then show ?thesis by (simp add: scan_vars_init_def)
next
  case (Some i)
  let ?pre = "take i lines" and ?m = "lines ! i" and ?rest = "drop (Suc i) lines"
  from first_index_Some[OF Some]
  have split: "lines = ?pre @ ?m # ?rest" and m: "all_words_in ws ?m"
    and pre: "list_all (\<lambda>l. \<not> all_words_in ws l) ?pre" by auto
  from assms Some have rest: "list_all (\<lambda>l. \<not> startswith l '')'') ?rest"
    by (simp add: region_missing_def)
  let ?v1 = "scan_vars_init\<lparr>start_index := Some (Suc (length ?pre)), seek_end := True\<rparr>"
  have 1: "scan_lines ws 0 ?pre scan_vars_init = scan_vars_init"
    using pre by (intro scan_lines_no_marker) (simp_all add: scan_vars_init_def)
  have 2: "scan_line ws (length ?pre) ?m scan_vars_init = ?v1"
    using m by (simp add: scan_line_def scan_vars_init_def)
  have 3: "scan_lines ws (Suc (length ?pre)) ?rest ?v1 = ?v1"
    using rest by (intro scan_lines_no_closing) simp_all
  have "scan_lines ws 0 (?pre @ ?m # ?rest) scan_vars_init = ?v1"
    using 1 2 3 by (simp add: scan_lines_append)
  with split have "scan_lines ws 0 lines scan_vars_init = ?v1" by simp
  then show ?thesis by (simp add: scan_vars_init_def)
qed

lemma update_section_region_missing:
  "region_missing (snd section) lines \<Longrightarrow>
   isl (update_section cwd settings section (lines, scan_vars_init))"
  using scan_lines_region_missing[of "snd section" lines]
  by (auto simp: update_section_def Let_def split: sum.splits option.splits)

lemma update_cmakelist_sources_error_keeps:
  "fst (update_cmakelist_sources cwd) = Some e \<Longrightarrow> snd (update_cmakelist_sources cwd) = cwd"
  by (auto simp: update_cmakelist_sources_def split: prod.splits option.splits node.splits sum.splits)

lemma update_sections_region_missing:
  assumes "region_missing [''set'', ''SRCS''] lines"
  shows "isl (update_sections cwd settings search_data (lines, scan_vars_init))"
proof -
  have "isl (update_section cwd settings (''src'', [''set'', ''SRCS'']) (lines, scan_vars_init))"
    using update_section_region_missing[of "(''src'', [''set'', ''SRCS''])" lines cwd settings] assms
    by simp
  then obtain e where
    "update_section cwd settings (''src'', [''set'', ''SRCS'']) (lines, scan_vars_init) = Inl e"
    by (cases "update_section cwd settings (''src'', [''set'', ''SRCS'']) (lines, scan_vars_init)") auto
  then show ?thesis by (simp add: search_data_def)
qed

text \<open>
  C1, as stated, fails for the headers region. Its pass finds no line with the header
  tokens, does not abort, and reuses the indices the sources pass bound: the header
  line is put into the sources list and the file is written.
\<close>

theorem missing_headers_region_written_counterexample:
  "region_missing [''set'', ''HDR''] (readlines ''set ( SRCS\<newline>)\<newline>'')
   \<and> update_cmakelist_sources (project_dir ''set ( SRCS\<newline>)\<newline>'')
     = (None, project_dir ''set ( SRCS\<newline>  include/util.h\<newline>  src/main.c\<newline>)\<newline>'')"
  by code_simp

text \<open>
  C1, amended: when no line of the build file has all the sources tokens, or no line
  after the first such line begins with a closing parenthesis, the update raises
  before it writes, and the working directory, the build file with it, is as it was.
\<close>

theorem update_aborts_when_sources_region_missing:
  assumes "map_of cwd ''CMakeLists.txt'' = Some (File content)"
    and "region_missing [''set'', ''SRCS''] (readlines content)"
  shows "\<exists>e. update_cmakelist_sources cwd = (Some e, cwd)"
proof (cases "read (np_lines cwd) (NPSettings_init, [])")
  case (fields r settings out)
  show ?thesis
  proof (cases r)
    case (Some e)
    with fields show ?thesis by (simp add: update_cmakelist_sources_def)
  next
    case None
    from update_sections_region_missing[OF assms(2), of cwd settings]
    obtain e where
      "update_sections cwd settings search_data (readlines content, scan_vars_init) = Inl e"
      by (cases "update_sections cwd settings search_data (readlines content, scan_vars_init)") auto
    with fields None assms(1) show ?thesis by (simp add: update_cmakelist_sources_def)
  qed
qed

theorem update_aborts_when_sources_region_missing_witness:
  "map_of (project_dir ''set ( SRCS\<newline>  old.c\<newline>  )\<newline>'') ''CMakeLists.txt''
     = Some (File ''set ( SRCS\<newline>  old.c\<newline>  )\<newline>'')
   \<and> region_missing [''set'', ''SRCS''] (readlines ''set ( SRCS\<newline>  old.c\<newline>  )\<newline>'')
   \<and> fst (update_cmakelist_sources (project_dir ''set ( SRCS\<newline>  old.c\<newline>  )\<newline>'')) \<noteq> None
   \<and> snd (update_cmakelist_sources (project_dir ''set ( SRCS\<newline>  old.c\<newline>  )\<newline>''))
     = project_dir ''set ( SRCS\<newline>  old.c\<newline>  )\<newline>''"
proof -
  have a: "map_of (project_dir ''set ( SRCS\<newline>  old.c\<newline>  )\<newline>'') ''CMakeLists.txt''
           = Some (File ''set ( SRCS\<newline>  old.c\<newline>  )\<newline>'')"
    by (simp add: project_dir_def)
  have b: "region_missing [''set'', ''SRCS''] (readlines ''set ( SRCS\<newline>  old.c\<newline>  )\<newline>'')"
    by code_simp
  from update_aborts_when_sources_region_missing[OF a b]
  obtain e where
    "update_cmakelist_sources (project_dir ''set ( SRCS\<newline>  old.c\<newline>  )\<newline>'')
     = (Some e, project_dir ''set ( SRCS\<newline>  old.c\<newline>  )\<newline>'')"
    by blast
  with a b show ?thesis by simp
qed

end
